theory Spec2Isabelle
  imports Main
begin

section \<open>Data model of the analysed program\<close>

text \<open>
  The analyzer of \<^verbatim>\<open>pkg/analyzer/defer_only.go\<close> walks the SSA form of a Go
  package. SSA instructions are heap objects that refer to one another by pointer
  (a value knows its referrers, an Extract knows its tuple, a Return knows its results),
  and the code compares them by identity. They are modelled as an explicit store: a
  node identifier stands for the pointer, and a total map from identifiers to nodes
  stands for the heap.
\<close>

type_synonym pos = nat
  \<comment> \<open>\<^verbatim>\<open>token.Pos\<close>\<close>

type_synonym vid = nat
  \<comment> \<open>identity of an \<^verbatim>\<open>ssa.Instruction\<close>\<close>

type_synonym fileid = nat
  \<comment> \<open>identity of a \<^verbatim>\<open>*token.File\<close>\<close>

type_synonym tyid = nat
  \<comment> \<open>identity of a \<^verbatim>\<open>*types.Named\<close>\<close>

datatype gotype = Named tyid | Pointer gotype | OtherType

text \<open>
  Of \<^verbatim>\<open>ssa.CallCommon\<close> the code reads whether \<^verbatim>\<open>Method\<close> and
  \<^verbatim>\<open>Value\<close> are nil and, when they are not, their \<^verbatim>\<open>Name()\<close>.
\<close>

record CallCommon =
  Method :: "string option"
  Value :: "string option"

datatype instr =
    Call CallCommon
  | Extract "vid option"
  | Defer CallCommon
  | Return "vid list"
  | OtherValue
  | OtherInstr

text \<open>
  \<^verbatim>\<open>Call\<close>, \<^verbatim>\<open>Extract\<close> and \<^verbatim>\<open>OtherValue\<close> (Alloc, UnOp, Phi, ...) satisfy
  \<^verbatim>\<open>ssa.Value\<close>; \<^verbatim>\<open>Defer\<close>, \<^verbatim>\<open>Return\<close> and \<^verbatim>\<open>OtherInstr\<close> (Store, If,
  Jump, ...) do not. \<^verbatim>\<open>Extract\<close> carries its \<^verbatim>\<open>Tuple\<close>, \<^verbatim>\<open>Return\<close> its
  \<^verbatim>\<open>Results\<close>.
\<close>

record node =
  kind :: instr
  Type :: gotype
  Pos :: pos
  Referrers :: "vid list option"

type_synonym heap = "vid \<Rightarrow> node"

record Function =
  fn_Pos :: pos
  Blocks :: "vid list list"

record Comment =
  Slash :: pos
  Text :: string

text \<open>
  An \<^verbatim>\<open>ast.CommentGroup\<close> is a non-empty list of comments; its \<^verbatim>\<open>Pos()\<close>
  is the position of the first one.
\<close>

datatype CommentGroup = CommentGroup Comment "Comment list"

fun cg_List :: "CommentGroup \<Rightarrow> Comment list" where
  "cg_List (CommentGroup c cs) = c # cs"

fun cg_Pos :: "CommentGroup \<Rightarrow> pos" where
  "cg_Pos (CommentGroup c cs) = Slash c"

record astFile =
  File_Pos :: pos
  Comments :: "CommentGroup list"

text \<open>
  The part of \<^verbatim>\<open>analysis.Pass\<close> that the code uses: the file set
  (\<^verbatim>\<open>Fset.File\<close>, which may yield nil, and for a file its \<^verbatim>\<open>Name()\<close> and
  \<^verbatim>\<open>Line\<close>) and the syntax trees \<^verbatim>\<open>Files\<close>.
\<close>

record Pass =
  Fset_File :: "pos \<Rightarrow> fileid option"
  file_Name :: "fileid \<Rightarrow> string"
  file_Line :: "fileid \<Rightarrow> pos \<Rightarrow> int"
  Files :: "astFile list"

type_synonym Diagnostic = "pos \<times> string"

record Package =
  Path :: string
  Scope_Lookup :: "string \<Rightarrow> gotype option"

record SSA =
  AllPackages :: "Package list"
  SrcFuncs :: "Function option list"

record Outcome =
  diagnostics :: "Diagnostic list"
  result :: "unit option"
  err :: "string option"

section \<open>String helpers\<close>

definition HasPrefix :: "string \<Rightarrow> string \<Rightarrow> bool" where
  "HasPrefix s p = (take (length p) s = p)"

definition HasSuffix :: "string \<Rightarrow> string \<Rightarrow> bool" where
  "HasSuffix s suf = (length suf \<le> length s \<and> drop (length s - length suf) s = suf)"

fun Contains :: "string \<Rightarrow> string \<Rightarrow> bool" where
  "Contains [] sub = (sub = [])"
| "Contains (c # cs) sub = (HasPrefix (c # cs) sub \<or> Contains cs sub)"

section \<open>The resource descriptors\<close>

record ResourceType =
  Name :: string
  CloseMethod :: string

definition CloseMessage :: "ResourceType \<Rightarrow> string" where
  "CloseMessage rt = Name rt @ ''.'' @ CloseMethod rt @ ''() must be deferred''"

definition spannerResourceTypes :: "string \<Rightarrow> ResourceType option" where
  "spannerResourceTypes = map_of
     [(''ReadOnlyTransaction'', \<lparr>Name = ''ReadOnlyTransaction'', CloseMethod = ''Close''\<rparr>),
      (''BatchReadOnlyTransaction'', \<lparr>Name = ''BatchReadOnlyTransaction'', CloseMethod = ''Close''\<rparr>),
      (''RowIterator'', \<lparr>Name = ''RowIterator'', CloseMethod = ''Stop''\<rparr>)]"

section \<open>The type registry\<close>

text \<open>
  \<^verbatim>\<open>spannerTypes\<close> is a Go map from \<^verbatim>\<open>*types.Named\<close> to the registered name,
  kept here as an association list so that its length can be asked for.
\<close>

type_synonym registry = "(tyid \<times> string) list"

fun put :: "tyid \<Rightarrow> string \<Rightarrow> registry \<Rightarrow> registry" where
  "put k v [] = [(k, v)]"
| "put k v ((k', v') # r) = (if k = k' then (k, v) # r else (k', v') # put k v r)"

definition registerType :: "Package \<Rightarrow> string \<Rightarrow> registry \<Rightarrow> registry" where
  "registerType pkg name spannerTypes =
     (case Scope_Lookup pkg name of
        None \<Rightarrow> spannerTypes
      | Some t \<Rightarrow> (case t of Named named \<Rightarrow> put named name spannerTypes | _ \<Rightarrow> spannerTypes))"

fun registerAll :: "Package list \<Rightarrow> registry \<Rightarrow> registry" where
  "registerAll [] spannerTypes = spannerTypes"
| "registerAll (pkg # pkgs) spannerTypes =
     (if Path pkg = ''cloud.google.com/go/spanner''
      then registerType pkg ''RowIterator''
             (registerType pkg ''BatchReadOnlyTransaction''
               (registerType pkg ''ReadOnlyTransaction'' spannerTypes))
      else registerAll pkgs spannerTypes)"

definition getSpannerType :: "gotype \<Rightarrow> registry \<Rightarrow> string" where
  "getSpannerType t spannerTypes =
     (let t' = (case t of Pointer e \<Rightarrow> e | _ \<Rightarrow> t)
      in case t' of
           Named named \<Rightarrow> (case map_of spannerTypes named of Some name \<Rightarrow> name | None \<Rightarrow> [])
         | _ \<Rightarrow> [])"

section \<open>Coverage and exemptions\<close>

fun isValue :: "instr \<Rightarrow> bool" where
  "isValue (Call c) = True"
| "isValue (Extract t) = True"
| "isValue OtherValue = True"
| "isValue _ = False"

fun isDefer :: "instr \<Rightarrow> bool" where
  "isDefer (Defer c) = True"
| "isDefer _ = False"

text \<open>The inner loop of \<^verbatim>\<open>hasDeferredClose\<close> over the referrers of a call.\<close>

fun deferAmong :: "heap \<Rightarrow> vid list \<Rightarrow> bool" where
  "deferAmong h [] = False"
| "deferAmong h (callRef # rest) =
     (if isDefer (kind (h callRef)) then True else deferAmong h rest)"

text \<open>
  The second test of the loop body: the referrer is a call with a method named
  Close or Stop, and one of the call's own referrers is a defer.
\<close>

definition deferredCloseCall :: "heap \<Rightarrow> vid \<Rightarrow> bool" where
  "deferredCloseCall h ref =
     (case kind (h ref) of
        Call c \<Rightarrow>
          (case Method c of
             None \<Rightarrow> False
           | Some methodName \<Rightarrow>
               if methodName = ''Close'' \<or> methodName = ''Stop''
               then (case Referrers (h ref) of None \<Rightarrow> False | Some crs \<Rightarrow> deferAmong h crs)
               else False)
      | _ \<Rightarrow> False)"

fun deferredCloseAmong :: "heap \<Rightarrow> vid list \<Rightarrow> bool" where
  "deferredCloseAmong h [] = False"
| "deferredCloseAmong h (ref # refs) =
     (if isDefer (kind (h ref)) then True
      else if deferredCloseCall h ref then True
      else deferredCloseAmong h refs)"

definition hasDeferredClose :: "heap \<Rightarrow> vid \<Rightarrow> bool" where
  "hasDeferredClose h val =
     (case Referrers (h val) of None \<Rightarrow> False | Some refs \<Rightarrow> deferredCloseAmong h refs)"

definition isFromSingle :: "heap \<Rightarrow> vid \<Rightarrow> bool" where
  "isFromSingle h val =
     (case kind (h val) of
        Call c \<Rightarrow>
          (if (case Method c of Some methodName \<Rightarrow> methodName = ''Single'' | None \<Rightarrow> False)
           then True
           else (case Value c of Some n \<Rightarrow> n = ''Single'' | None \<Rightarrow> False))
      | _ \<Rightarrow> False)"

text \<open>The inner loop of \<^verbatim>\<open>isReturnedFromFunction\<close> over \<^verbatim>\<open>ret.Results\<close>.\<close>

fun amongResults :: "vid \<Rightarrow> vid list \<Rightarrow> bool" where
  "amongResults val [] = False"
| "amongResults val (res # rest) = (if res = val then True else amongResults val rest)"

fun returnedAmong :: "heap \<Rightarrow> vid \<Rightarrow> vid list \<Rightarrow> bool" where
  "returnedAmong h val [] = False"
| "returnedAmong h val (ref # refs) =
     (case kind (h ref) of
        Return results \<Rightarrow> if amongResults val results then True else returnedAmong h val refs
      | _ \<Rightarrow> returnedAmong h val refs)"

definition isReturnedFromFunction :: "heap \<Rightarrow> Function \<Rightarrow> vid \<Rightarrow> bool" where
  "isReturnedFromFunction h fn val =
     (case Referrers (h val) of None \<Rightarrow> False | Some refs \<Rightarrow> returnedAmong h val refs)"

section \<open>Suppression\<close>

definition fileNolintText :: "string \<Rightarrow> bool" where
  "fileNolintText text = (Contains text ''nolint:spannerclosecheck'' \<or> Contains text ''nolint:all'')"

definition nolintText :: "string \<Rightarrow> bool" where
  "nolintText text =
     (Contains text ''nolint:spannerclosecheck'' \<or> Contains text ''nolint:all'' \<or>
      (Contains text ''nolint'' \<and> \<not> Contains text '':''))"

fun anyComment :: "(string \<Rightarrow> bool) \<Rightarrow> Comment list \<Rightarrow> bool" where
  "anyComment p [] = False"
| "anyComment p (c # cs) = (if p (Text c) then True else anyComment p cs)"

text \<open>
  The loop of \<^verbatim>\<open>hasFileLevelNolint\<close> over the comment groups of one file: it
  stops (\<^verbatim>\<open>break\<close>) at the first group positioned after line 10.
\<close>

fun fileLevelGroups :: "(pos \<Rightarrow> int) \<Rightarrow> CommentGroup list \<Rightarrow> bool" where
  "fileLevelGroups line [] = False"
| "fileLevelGroups line (cg # cgs) =
     (if line (cg_Pos cg) > 10 then False
      else if anyComment fileNolintText (cg_List cg) then True
      else fileLevelGroups line cgs)"

fun fileLevelFiles :: "Pass \<Rightarrow> fileid \<Rightarrow> astFile list \<Rightarrow> bool" where
  "fileLevelFiles pass file [] = False"
| "fileLevelFiles pass file (f # fs) =
     (if Fset_File pass (File_Pos f) \<noteq> Some file then fileLevelFiles pass file fs
      else if fileLevelGroups (file_Line pass file) (Comments f) then True
      else fileLevelFiles pass file fs)"

definition hasFileLevelNolint :: "Pass \<Rightarrow> pos \<Rightarrow> bool" where
  "hasFileLevelNolint pass p =
     (case Fset_File pass p of
        None \<Rightarrow> False
      | Some file \<Rightarrow> fileLevelFiles pass file (Files pass))"

definition isGeneratedFile :: "Pass \<Rightarrow> pos \<Rightarrow> bool" where
  "isGeneratedFile pass p =
     (case Fset_File pass p of
        None \<Rightarrow> False
      | Some file \<Rightarrow>
          (let filename = file_Name pass file in
           if HasSuffix filename ''.yo.go'' then True
           else if HasSuffix filename ''.pb.go'' then True
           else if HasSuffix filename ''_gen.go'' then True
           else if Contains filename ''generated'' then True
           else if hasFileLevelNolint pass p then True
           else False))"

fun nolintGroups :: "(pos \<Rightarrow> int) \<Rightarrow> int \<Rightarrow> CommentGroup list \<Rightarrow> bool" where
  "nolintGroups line l [] = False"
| "nolintGroups line l (cg # cgs) =
     (if (line (cg_Pos cg) = l \<or> line (cg_Pos cg) = l - 1) \<and> anyComment nolintText (cg_List cg)
      then True
      else nolintGroups line l cgs)"

fun nolintFiles :: "Pass \<Rightarrow> fileid \<Rightarrow> int \<Rightarrow> astFile list \<Rightarrow> bool" where
  "nolintFiles pass file l [] = False"
| "nolintFiles pass file l (f # fs) =
     (if Fset_File pass (File_Pos f) \<noteq> Some file then nolintFiles pass file l fs
      else if nolintGroups (file_Line pass file) l (Comments f) then True
      else nolintFiles pass file l fs)"

definition hasNolintDirective :: "Pass \<Rightarrow> pos \<Rightarrow> bool" where
  "hasNolintDirective pass p =
     (case Fset_File pass p of
        None \<Rightarrow> False
      | Some file \<Rightarrow> nolintFiles pass file (file_Line pass file p) (Files pass))"

section \<open>The scan\<close>

text \<open>
  The position a finding is reported at: that of the value, or, for an Extract with a
  tuple, that of the tuple.
\<close>

definition reportPos :: "heap \<Rightarrow> vid \<Rightarrow> pos" where
  "reportPos h val =
     (case kind (h val) of
        Extract (Some t) \<Rightarrow> Pos (h t)
      | _ \<Rightarrow> Pos (h val))"

text \<open>
  The body of the loop of \<^verbatim>\<open>checkFunc\<close> over the instructions. \<^verbatim>\<open>pass.Reportf\<close>
  appends to the diagnostics collected so far, which are passed in and returned.
\<close>

definition checkInstr ::
  "Pass \<Rightarrow> heap \<Rightarrow> registry \<Rightarrow> Function \<Rightarrow> vid \<Rightarrow> Diagnostic list \<Rightarrow> Diagnostic list" where
  "checkInstr pass h spannerTypes fn i ds =
     (if isValue (kind (h i)) then
        (let typeName = getSpannerType (Type (h i)) spannerTypes in
         if typeName \<noteq> [] then
           (if typeName = ''ReadOnlyTransaction'' \<and> isFromSingle h i then ds
            else if typeName = ''RowIterator'' \<and> isReturnedFromFunction h fn i then ds
            else if \<not> hasDeferredClose h i then
              (let p = reportPos h i in
               if \<not> hasNolintDirective pass p
               then ds @ [(p, typeName @ ''.Close() must be deferred'')]
               else ds)
            else ds)
         else ds)
      else ds)"

fun checkBlock ::
  "Pass \<Rightarrow> heap \<Rightarrow> registry \<Rightarrow> Function \<Rightarrow> vid list \<Rightarrow> Diagnostic list \<Rightarrow> Diagnostic list" where
  "checkBlock pass h spannerTypes fn [] ds = ds"
| "checkBlock pass h spannerTypes fn (i # is) ds =
     checkBlock pass h spannerTypes fn is (checkInstr pass h spannerTypes fn i ds)"

fun checkBlocks ::
  "Pass \<Rightarrow> heap \<Rightarrow> registry \<Rightarrow> Function \<Rightarrow> vid list list \<Rightarrow> Diagnostic list \<Rightarrow> Diagnostic list" where
  "checkBlocks pass h spannerTypes fn [] ds = ds"
| "checkBlocks pass h spannerTypes fn (b # bs) ds =
     checkBlocks pass h spannerTypes fn bs (checkBlock pass h spannerTypes fn b ds)"

definition checkFunc ::
  "Pass \<Rightarrow> heap \<Rightarrow> Function option \<Rightarrow> registry \<Rightarrow> Diagnostic list \<Rightarrow> Diagnostic list" where
  "checkFunc pass h fno spannerTypes ds =
     (case fno of
        None \<Rightarrow> ds
      | Some fn \<Rightarrow>
          if isGeneratedFile pass (fn_Pos fn) then ds
          else checkBlocks pass h spannerTypes fn (Blocks fn) ds)"

fun checkFuncs ::
  "Pass \<Rightarrow> heap \<Rightarrow> registry \<Rightarrow> Function option list \<Rightarrow> Diagnostic list \<Rightarrow> Diagnostic list" where
  "checkFuncs pass h spannerTypes [] ds = ds"
| "checkFuncs pass h spannerTypes (fn # fns) ds =
     checkFuncs pass h spannerTypes fns (checkFunc pass h fn spannerTypes ds)"

definition deferOnlyAnalyzer :: "Pass \<Rightarrow> heap \<Rightarrow> SSA \<Rightarrow> Outcome" where
  "deferOnlyAnalyzer pass h pssa =
     (let spannerTypes = registerAll (AllPackages pssa) [] in
      if length spannerTypes = 0
      then \<lparr>diagnostics = [], result = None, err = None\<rparr>
      else \<lparr>diagnostics = checkFuncs pass h spannerTypes (SrcFuncs pssa) [],
            result = None, err = None\<rparr>)"

section \<open>Notions of the specification\<close>

text \<open>
  A candidate is an instruction that is a value whose type the registry knows. It is
  exempt when one of the two skips of \<^verbatim>\<open>checkFunc\<close> applies, and reportable
  when it is a candidate that is neither exempt, nor covered, nor suppressed at the
  position it would be reported at.
\<close>

definition candidate :: "heap \<Rightarrow> registry \<Rightarrow> vid \<Rightarrow> bool" where
  "candidate h spannerTypes i =
     (isValue (kind (h i)) \<and> getSpannerType (Type (h i)) spannerTypes \<noteq> [])"

definition exempt :: "heap \<Rightarrow> registry \<Rightarrow> Function \<Rightarrow> vid \<Rightarrow> bool" where
  "exempt h spannerTypes fn i =
     ((getSpannerType (Type (h i)) spannerTypes = ''ReadOnlyTransaction'' \<and> isFromSingle h i) \<or>
      (getSpannerType (Type (h i)) spannerTypes = ''RowIterator'' \<and> isReturnedFromFunction h fn i))"

definition reportable :: "Pass \<Rightarrow> heap \<Rightarrow> registry \<Rightarrow> Function \<Rightarrow> vid \<Rightarrow> bool" where
  "reportable pass h spannerTypes fn i =
     (candidate h spannerTypes i \<and> \<not> exempt h spannerTypes fn i \<and>
      \<not> hasDeferredClose h i \<and> \<not> hasNolintDirective pass (reportPos h i))"

text \<open>
  The method that a call calls, by name. A method invoked through an interface is
  \<^verbatim>\<open>Method\<close>; a concrete method is called as a function, and its name is that of
  \<^verbatim>\<open>Value\<close> (\<^verbatim>\<open>txn.Close()\<close> on a \<^verbatim>\<open>*ReadOnlyTransaction\<close> has a nil
  \<^verbatim>\<open>Method\<close> and a \<^verbatim>\<open>Value\<close> named Close).
\<close>

definition calledMethod :: "CallCommon \<Rightarrow> string option" where
  "calledMethod c = (case Method c of Some m \<Rightarrow> Some m | None \<Rightarrow> Value c)"

text \<open>
  Rule (b) in the words of the specification, for a given test on method names: the
  use site is a method call, of either kind, with an accepted name, and one of the
  call's own use sites is a defer.
\<close>

definition deferredMethodCall :: "heap \<Rightarrow> (string \<Rightarrow> bool) \<Rightarrow> vid \<Rightarrow> bool" where
  "deferredMethodCall h accepted ref =
     (case kind (h ref) of
        Call c \<Rightarrow>
          (case calledMethod c of
             None \<Rightarrow> False
           | Some m \<Rightarrow>
               accepted m \<and>
               (case Referrers (h ref) of
                  None \<Rightarrow> False
                | Some crs \<Rightarrow> list_ex (\<lambda>d. isDefer (kind (h d))) crs))
      | _ \<Rightarrow> False)"

text \<open>
  Rule (b) restricted to calls that invoke a method through an interface: a call of a
  concrete method does not count, whatever its name.
\<close>

definition deferredInterfaceCall :: "heap \<Rightarrow> (string \<Rightarrow> bool) \<Rightarrow> vid \<Rightarrow> bool" where
  "deferredInterfaceCall h accepted ref =
     (case kind (h ref) of
        Call c \<Rightarrow>
          (case Method c of
             None \<Rightarrow> False
           | Some m \<Rightarrow>
               accepted m \<and>
               (case Referrers (h ref) of
                  None \<Rightarrow> False
                | Some crs \<Rightarrow> list_ex (\<lambda>d. isDefer (kind (h d))) crs))
      | _ \<Rightarrow> False)"

text \<open>
  The coverage rule, for a given reading of rule (b): some use site of the value is a
  defer (a), or some use site satisfies rule (b).
\<close>

definition coveredBy :: "heap \<Rightarrow> (vid \<Rightarrow> bool) \<Rightarrow> vid \<Rightarrow> bool" where
  "coveredBy h ruleB val =
     (case Referrers (h val) of
        None \<Rightarrow> False
      | Some refs \<Rightarrow>
          list_ex (\<lambda>r. isDefer (kind (h r))) refs \<or> list_ex ruleB refs)"

text \<open>The cleanup method of the descriptor registered under a type name.\<close>

definition cleanupMethodOf :: "string \<Rightarrow> string \<Rightarrow> bool" where
  "cleanupMethodOf typeName m =
     (case spannerResourceTypes typeName of
        None \<Rightarrow> False
      | Some rt \<Rightarrow> m = CloseMethod rt)"

definition specCovered :: "heap \<Rightarrow> registry \<Rightarrow> vid \<Rightarrow> bool" where
  "specCovered h spannerTypes val =
     coveredBy h
       (deferredMethodCall h (cleanupMethodOf (getSpannerType (Type (h val)) spannerTypes))) val"

definition closeOrStop :: "string \<Rightarrow> bool" where
  "closeOrStop m = (m = ''Close'' \<or> m = ''Stop'')"



section \<open>Example programs\<close>

text \<open>
  The examples follow the fixtures under \<^verbatim>\<open>testdata\<close>. A position \<open>100 * l + c\<close>
  is column \<open>c\<close> of line \<open>l\<close> of the one file \<^verbatim>\<open>a.go\<close>; position 0
  (\<^verbatim>\<open>token.NoPos\<close>) belongs to no file.
\<close>

definition noNode :: node where
  "noNode = \<lparr>kind = OtherInstr, Type = OtherType, Pos = 0, Referrers = None\<rparr>"

definition spannerPkg :: Package where
  "spannerPkg =
     \<lparr>Path = ''cloud.google.com/go/spanner'',
      Scope_Lookup = map_of
        [(''Client'', Named 3),
         (''ReadOnlyTransaction'', Named 0),
         (''BatchReadOnlyTransaction'', Named 1),
         (''RowIterator'', Named 2)]\<rparr>"

definition fmtPkg :: Package where
  "fmtPkg = \<lparr>Path = ''fmt'', Scope_Lookup = map_of [(''Stringer'', Named 7)]\<rparr>"

definition exRegistry :: registry where
  "exRegistry = registerAll [fmtPkg, spannerPkg] []"

definition exFset :: "pos \<Rightarrow> fileid option" where
  "exFset p = (if 1 \<le> p \<and> p < 10000 then Some 0 else None)"

definition exLine :: "fileid \<Rightarrow> pos \<Rightarrow> int" where
  "exLine f p = int (p div 100)"

definition plainPass :: Pass where
  "plainPass =
     \<lparr>Fset_File = exFset, file_Name = (\<lambda>f. ''a.go''), file_Line = exLine,
      Files = [\<lparr>File_Pos = 101, Comments = []\<rparr>]\<rparr>"

text \<open>
  \<^verbatim>\<open>badNoDefer\<close> followed by \<^verbatim>\<open>badBatchReadOnlyTransaction\<close>: a transaction
  (node 1) and an iterator (node 2) that nothing defers, and a batch transaction
  (node 4) extracted from the pair that the call (node 3) returns.
\<close>

definition badHeap :: heap where
  "badHeap = (\<lambda>i. noNode)
     (1 := \<lparr>kind = Call \<lparr>Method = None, Value = Some ''ReadOnlyTransaction''\<rparr>,
            Type = Pointer (Named 0), Pos = 2009, Referrers = Some [2]\<rparr>,
      2 := \<lparr>kind = Call \<lparr>Method = None, Value = Some ''Query''\<rparr>,
            Type = Pointer (Named 2), Pos = 2210, Referrers = Some []\<rparr>,
      3 := \<lparr>kind = Call \<lparr>Method = None, Value = Some ''BatchReadOnlyTransaction''\<rparr>,
            Type = OtherType, Pos = 2412, Referrers = Some [4, 5]\<rparr>,
      4 := \<lparr>kind = Extract (Some 3), Type = Pointer (Named 1), Pos = 0, Referrers = Some []\<rparr>,
      5 := \<lparr>kind = Extract (Some 3), Type = OtherType, Pos = 0, Referrers = Some [6]\<rparr>,
      6 := \<lparr>kind = Return [5], Type = OtherType, Pos = 2602, Referrers = None\<rparr>)"

definition badFn :: Function where
  "badFn = \<lparr>fn_Pos = 1906, Blocks = [[1, 2, 3], [4, 5, 6]]\<rparr>"

text \<open>
  A transaction (node 1) passed to a deferred call of an unrelated function (node 2):
  \<^verbatim>\<open>txn := client.ReadOnlyTransaction(); defer logTxn(txn)\<close>.
\<close>

definition deferHeap :: heap where
  "deferHeap = (\<lambda>i. noNode)
     (1 := \<lparr>kind = Call \<lparr>Method = None, Value = Some ''ReadOnlyTransaction''\<rparr>,
            Type = Pointer (Named 0), Pos = 2009, Referrers = Some [2]\<rparr>,
      2 := \<lparr>kind = Defer \<lparr>Method = None, Value = Some ''logTxn''\<rparr>,
            Type = OtherType, Pos = 2102, Referrers = None\<rparr>)"

definition deferFn :: Function where
  "deferFn = \<lparr>fn_Pos = 1906, Blocks = [[1, 2]]\<rparr>"

text \<open>
  An iterator (node 1) handed to an interface method named Close (node 2) whose result
  is an argument of a deferred call (node 3):
  \<^verbatim>\<open>iter := txn.Query(ctx, stmt); defer record(c.Close(iter))\<close>.
\<close>

definition closeHeap :: heap where
  "closeHeap = (\<lambda>i. noNode)
     (1 := \<lparr>kind = Call \<lparr>Method = None, Value = Some ''Query''\<rparr>,
            Type = Pointer (Named 2), Pos = 3010, Referrers = Some [2]\<rparr>,
      2 := \<lparr>kind = Call \<lparr>Method = Some ''Close'', Value = Some ''c''\<rparr>,
            Type = OtherType, Pos = 3116, Referrers = Some [3]\<rparr>,
      3 := \<lparr>kind = Defer \<lparr>Method = None, Value = Some ''record''\<rparr>,
            Type = OtherType, Pos = 3102, Referrers = None\<rparr>)"

definition closeFn :: Function where
  "closeFn = \<lparr>fn_Pos = 2906, Blocks = [[1, 2, 3]]\<rparr>"

text \<open>
  \<^verbatim>\<open>badReadOnlyTransactionCloseNotDeferred\<close>:
  \<^verbatim>\<open>txn := client.ReadOnlyTransaction(); txn.Close()\<close>. The cleanup method is
  called (node 2) and nothing is deferred.
\<close>

definition calledHeap :: heap where
  "calledHeap = (\<lambda>i. noNode)
     (1 := \<lparr>kind = Call \<lparr>Method = None, Value = Some ''ReadOnlyTransaction''\<rparr>,
            Type = Pointer (Named 0), Pos = 2611, Referrers = Some [2]\<rparr>,
      2 := \<lparr>kind = Call \<lparr>Method = None, Value = Some ''Close''\<rparr>,
            Type = OtherType, Pos = 2706, Referrers = Some []\<rparr>)"

definition calledFn :: Function where
  "calledFn = \<lparr>fn_Pos = 2506, Blocks = [[1, 2]]\<rparr>"

text \<open>
  \<^verbatim>\<open>goodSingleInline\<close>: \<^verbatim>\<open>iter := client.Single().Query(ctx, stmt)\<close>; the
  transaction (node 1) comes from Single and is never closed.
\<close>

definition singleHeap :: heap where
  "singleHeap = (\<lambda>i. noNode)
     (1 := \<lparr>kind = Call \<lparr>Method = None, Value = Some ''Single''\<rparr>,
            Type = Pointer (Named 0), Pos = 3324, Referrers = Some [2]\<rparr>,
      2 := \<lparr>kind = Call \<lparr>Method = None, Value = Some ''Query''\<rparr>,
            Type = Pointer (Named 2), Pos = 3330, Referrers = Some [3]\<rparr>,
      3 := \<lparr>kind = Defer \<lparr>Method = None, Value = Some ''Stop''\<rparr>,
            Type = OtherType, Pos = 3402, Referrers = None\<rparr>)"

definition singleFn :: Function where
  "singleFn = \<lparr>fn_Pos = 3106, Blocks = [[1, 2, 3]]\<rparr>"

text \<open>
  \<^verbatim>\<open>return txn.Query(ctx, stmt)\<close>: the iterator (node 1) is a result of the
  return (node 2).
\<close>

definition returnHeap :: heap where
  "returnHeap = (\<lambda>i. noNode)
     (1 := \<lparr>kind = Call \<lparr>Method = None, Value = Some ''Query''\<rparr>,
            Type = Pointer (Named 2), Pos = 4016, Referrers = Some [2]\<rparr>,
      2 := \<lparr>kind = Return [1], Type = OtherType, Pos = 4002, Referrers = None\<rparr>)"

definition returnFn :: Function where
  "returnFn = \<lparr>fn_Pos = 3906, Blocks = [[1, 2]]\<rparr>"

text \<open>
  An implicit load of an iterator variable (node 1): a value without a position of
  its own, which nothing defers.
\<close>

definition loadHeap :: heap where
  "loadHeap = (\<lambda>i. noNode)
     (1 := \<lparr>kind = OtherValue, Type = Pointer (Named 2), Pos = 0, Referrers = Some []\<rparr>)"

definition loadFn :: Function where
  "loadFn = \<lparr>fn_Pos = 0, Blocks = [[1]]\<rparr>"

text \<open>
  A two-line comment above \<^verbatim>\<open>txn := client.ReadOnlyTransaction()\<close> of line 20:
  an explanation on line 18 and the directive on line 19. The parser makes one group
  of the two.
\<close>

definition leadPass :: Pass where
  "leadPass =
     \<lparr>Fset_File = exFset, file_Name = (\<lambda>f. ''a.go''), file_Line = exLine,
      Files =
        [\<lparr>File_Pos = 101,
          Comments =
            [CommentGroup \<lparr>Slash = 1802, Text = ''// The session pool closes it.''\<rparr>
               [\<lparr>Slash = 1902, Text = ''//nolint:spannerclosecheck''\<rparr>]]\<rparr>]\<rparr>"

text \<open>The same file with the directive alone, on the line of the call.\<close>

definition trailPass :: Pass where
  "trailPass =
     \<lparr>Fset_File = exFset, file_Name = (\<lambda>f. ''a.go''), file_Line = exLine,
      Files =
        [\<lparr>File_Pos = 101,
          Comments =
            [CommentGroup \<lparr>Slash = 2040, Text = ''//nolint:spannerclosecheck''\<rparr> []]\<rparr>]\<rparr>"


text \<open>
  An iterator (node 1) whose concrete method Stop is called (node 2) with the call as
  an operand of a defer (node 3).
\<close>

definition concreteHeap :: heap where
  "concreteHeap = (\<lambda>i. noNode)
     (1 := \<lparr>kind = Call \<lparr>Method = None, Value = Some ''Query''\<rparr>,
            Type = Pointer (Named 2), Pos = 3010, Referrers = Some [2]\<rparr>,
      2 := \<lparr>kind = Call \<lparr>Method = None, Value = Some ''Stop''\<rparr>,
            Type = OtherType, Pos = 3116, Referrers = Some [3]\<rparr>,
      3 := \<lparr>kind = Defer \<lparr>Method = None, Value = Some ''record''\<rparr>,
            Type = OtherType, Pos = 3102, Referrers = None\<rparr>)"



definition fmtOnly :: SSA where
  "fmtOnly = \<lparr>AllPackages = [fmtPkg], SrcFuncs = [None, Some badFn]\<rparr>"

section \<open>The loops as quantifiers\<close>

lemma deferAmong_iff: "deferAmong h rs \<longleftrightarrow> (\<exists>r\<in>set rs. isDefer (kind (h r)))"
  by (induction rs) auto

lemma deferredCloseAmong_iff:
  "deferredCloseAmong h rs \<longleftrightarrow> (\<exists>r\<in>set rs. isDefer (kind (h r)) \<or> deferredCloseCall h r)"
  by (induction rs) auto

lemma amongResults_iff: "amongResults val rs \<longleftrightarrow> val \<in> set rs"
  by (induction rs) auto

lemma returnedAmong_iff:
  "returnedAmong h val rs \<longleftrightarrow>
     (\<exists>r\<in>set rs. \<exists>results. kind (h r) = Return results \<and> val \<in> set results)"
  by (induction rs) (auto simp: amongResults_iff split: instr.splits)


lemma deferredCloseCall_eq: "deferredCloseCall h r = deferredInterfaceCall h closeOrStop r"
  by (auto simp: deferredCloseCall_def deferredInterfaceCall_def closeOrStop_def deferAmong_iff
      list_ex_iff split: instr.splits option.splits)

lemma hasDeferredClose_eq:
  "hasDeferredClose h val = coveredBy h (deferredInterfaceCall h closeOrStop) val"
  by (auto simp: hasDeferredClose_def coveredBy_def deferredCloseAmong_iff deferredCloseCall_eq
      list_ex_iff split: option.splits)

section \<open>The scan as a filter\<close>

lemma checkInstr_eq:
  "checkInstr pass h st fn i ds =
     ds @ (if reportable pass h st fn i
           then [(reportPos h i, getSpannerType (Type (h i)) st @ ''.Close() must be deferred'')]
           else [])"
  by (simp add: checkInstr_def reportable_def candidate_def exempt_def Let_def)

lemma checkBlock_eq:
  "checkBlock pass h st fn is ds =
     ds @ map (\<lambda>i. (reportPos h i, getSpannerType (Type (h i)) st @ ''.Close() must be deferred''))
            (filter (reportable pass h st fn) is)"
  by (induction "is" arbitrary: ds) (simp_all add: checkInstr_eq)

lemma checkBlocks_eq:
  "checkBlocks pass h st fn bs ds =
     ds @ map (\<lambda>i. (reportPos h i, getSpannerType (Type (h i)) st @ ''.Close() must be deferred''))
            (filter (reportable pass h st fn) (concat bs))"
  by (induction bs arbitrary: ds) (simp_all add: checkBlock_eq)

lemma exRegistry_eq:
  "exRegistry =
     [(0, ''ReadOnlyTransaction''), (1, ''BatchReadOnlyTransaction''), (2, ''RowIterator'')]"
  by (simp add: exRegistry_def spannerPkg_def fmtPkg_def registerType_def)

lemmas example_defs =
  noNode_def exFset_def exLine_def exRegistry_eq getSpannerType_def HasPrefix_def HasSuffix_def
  isFromSingle_def isReturnedFromFunction_def hasDeferredClose_def deferredCloseCall_def
  reportPos_def hasNolintDirective_def isGeneratedFile_def hasFileLevelNolint_def
  fileNolintText_def nolintText_def candidate_def exempt_def reportable_def checkInstr_def
  checkFunc_def

section \<open>Coverage\<close>

text \<open>
  C10. If any use site of a candidate value is a defer instruction, whatever the
  deferred call is, the value is treated as covered and no diagnostic is emitted for it.
\<close>

theorem defer_use_site_covers:
  assumes "Referrers (h val) = Some refs"
    and "ref \<in> set refs"
    and "kind (h ref) = Defer c"
  shows "hasDeferredClose h val \<and> checkInstr pass h st fn val ds = ds"
proof -
  from assms(3) have "isDefer (kind (h ref))"
    by simp
  with assms(1,2) have "hasDeferredClose h val"
    unfolding hasDeferredClose_def deferredCloseAmong_iff by auto
  then show ?thesis
    by (simp add: checkInstr_eq reportable_def)
qed

theorem defer_use_site_covers_witness:
  "candidate deferHeap exRegistry 1 \<and>
   Referrers (deferHeap 1) = Some [2] \<and>
   kind (deferHeap 2) = Defer \<lparr>Method = None, Value = Some ''logTxn''\<rparr> \<and>
   hasDeferredClose deferHeap 1 \<and>
   checkInstr plainPass deferHeap exRegistry deferFn 1 [] = []"
  using defer_use_site_covers [of deferHeap 1 "[2]" 2 "\<lparr>Method = None, Value = Some ''logTxn''\<rparr>"
      plainPass exRegistry deferFn "[]"]
  by (simp add: deferHeap_def candidate_def getSpannerType_def exRegistry_eq)

text \<open>
  C1, as the specification words it: rule (b) asks for a method call that bears the
  cleanup method of the candidate's own descriptor. The scan differs both ways. It
  covers an iterator, whose cleanup method is Stop, through a deferred call of an
  interface method named Close; and it does not cover an iterator through a deferred
  call of its concrete method Stop.
\<close>

theorem coverage_by_descriptor_counterexample:
  "candidate closeHeap exRegistry 1 \<and>
   \<not> exempt closeHeap exRegistry closeFn 1 \<and>
   \<not> hasNolintDirective plainPass (reportPos closeHeap 1) \<and>
   hasDeferredClose closeHeap 1 \<and>
   \<not> specCovered closeHeap exRegistry 1 \<and>
   candidate concreteHeap exRegistry 1 \<and>
   \<not> exempt concreteHeap exRegistry closeFn 1 \<and>
   \<not> hasNolintDirective plainPass (reportPos concreteHeap 1) \<and>
   \<not> hasDeferredClose concreteHeap 1 \<and>
   specCovered concreteHeap exRegistry 1"
  by (simp add: closeHeap_def concreteHeap_def plainPass_def example_defs specCovered_def
      coveredBy_def deferredMethodCall_def calledMethod_def cleanupMethodOf_def
      spannerResourceTypes_def)

text \<open>
  C1, amended. For every candidate that is neither exempt nor suppressed, the scan
  decides that it is covered if and only if (a) one of its use sites is a defer, or
  (b) one of its use sites is a call that invokes, through an interface, a method
  named Close or Stop, whichever the candidate's type, and one of that call's own use
  sites is a defer. A call of a concrete method does not count under (b), whatever its
  name. A covered candidate gets no diagnostic; any other one, in particular one whose
  cleanup method is called but never deferred, gets one.
\<close>

theorem coverage_close_or_stop:
  assumes "candidate h st val"
    and "\<not> exempt h st fn val"
    and "\<not> hasNolintDirective pass (reportPos h val)"
  shows "(hasDeferredClose h val \<longleftrightarrow> coveredBy h (deferredInterfaceCall h closeOrStop) val) \<and>
         (coveredBy h (deferredInterfaceCall h closeOrStop) val \<longrightarrow>
            checkInstr pass h st fn val ds = ds) \<and>
         (\<not> coveredBy h (deferredInterfaceCall h closeOrStop) val \<longrightarrow>
            (\<exists>msg. checkInstr pass h st fn val ds = ds @ [(reportPos h val, msg)]))"
  using assms by (simp add: hasDeferredClose_eq checkInstr_eq reportable_def)

theorem coverage_close_or_stop_witness:
  "candidate calledHeap exRegistry 1 \<and>
   \<not> exempt calledHeap exRegistry calledFn 1 \<and>
   \<not> hasNolintDirective plainPass (reportPos calledHeap 1) \<and>
   \<not> hasDeferredClose calledHeap 1 \<and>
   \<not> coveredBy calledHeap (deferredInterfaceCall calledHeap closeOrStop) 1 \<and>
   checkInstr plainPass calledHeap exRegistry calledFn 1 [] =
     [(2611, ''ReadOnlyTransaction.Close() must be deferred'')] \<and>
   coveredBy closeHeap (deferredInterfaceCall closeHeap closeOrStop) 1 \<and>
   checkInstr plainPass closeHeap exRegistry closeFn 1 [] = [] \<and>
   \<not> coveredBy concreteHeap (deferredInterfaceCall concreteHeap closeOrStop) 1 \<and>
   checkInstr plainPass concreteHeap exRegistry closeFn 1 [] =
     [(3010, ''RowIterator.Close() must be deferred'')]"
  using coverage_close_or_stop [of calledHeap exRegistry 1 calledFn plainPass "[]"]
    coverage_close_or_stop [of closeHeap exRegistry 1 closeFn plainPass "[]"]
    coverage_close_or_stop [of concreteHeap exRegistry 1 closeFn plainPass "[]"]
  by (simp add: calledHeap_def closeHeap_def concreteHeap_def plainPass_def example_defs
      coveredBy_def deferredInterfaceCall_def closeOrStop_def)

section \<open>Diagnostics\<close>

text \<open>
  C2. The message of a finding is to name the cleanup method of the descriptor, Stop
  for an iterator. On the iterator of \<^verbatim>\<open>badNoDefer\<close> the scan reports a message
  that names Close, where the descriptor's own \<^verbatim>\<open>CloseMessage\<close> names Stop.
\<close>

theorem iterator_message_names_close:
  "checkInstr plainPass badHeap exRegistry badFn 2 [] =
     [(2210, ''RowIterator.Close() must be deferred'')] \<and>
   map_option CloseMessage (spannerResourceTypes ''RowIterator'') =
     Some ''RowIterator.Stop() must be deferred''"
  by (simp add: badHeap_def plainPass_def example_defs CloseMessage_def spannerResourceTypes_def)

text \<open>
  C6. In a function that is not skipped, every candidate that is neither exempt, nor
  covered, nor suppressed yields exactly one diagnostic, and the diagnostics of the
  function are those and no others, in the order of the instructions. Each is
  positioned at the candidate, or, for a candidate extracted from a multi-result call,
  at that call.
\<close>

theorem one_diagnostic_at_producer:
  assumes "\<not> isGeneratedFile pass (fn_Pos fn)"
  shows "map fst (checkFunc pass h (Some fn) st ds) =
           map fst ds @ map (reportPos h) (filter (reportable pass h st fn) (concat (Blocks fn))) \<and>
         (reportable pass h st fn i \<longrightarrow>
            (\<exists>msg. checkInstr pass h st fn i ds = ds @ [(reportPos h i, msg)])) \<and>
         (kind (h i) = Extract (Some t) \<longrightarrow> reportPos h i = Pos (h t)) \<and>
         ((\<forall>u. kind (h i) \<noteq> Extract (Some u)) \<longrightarrow> reportPos h i = Pos (h i))"
proof -
  have "map fst (checkFunc pass h (Some fn) st ds) =
          map fst ds @ map (reportPos h) (filter (reportable pass h st fn) (concat (Blocks fn)))"
    using assms by (simp add: checkFunc_def checkBlocks_eq comp_def)
  moreover have "reportable pass h st fn i \<longrightarrow>
      (\<exists>msg. checkInstr pass h st fn i ds = ds @ [(reportPos h i, msg)])"
    by (simp add: checkInstr_eq)
  moreover have "kind (h i) = Extract (Some t) \<longrightarrow> reportPos h i = Pos (h t)"
    by (simp add: reportPos_def)
  moreover have "(\<forall>u. kind (h i) \<noteq> Extract (Some u)) \<longrightarrow> reportPos h i = Pos (h i)"
    by (auto simp: reportPos_def split: instr.splits option.splits)
  ultimately show ?thesis by blast
qed

theorem one_diagnostic_at_producer_witness:
  "\<not> isGeneratedFile plainPass (fn_Pos badFn) \<and>
   filter (reportable plainPass badHeap exRegistry badFn) (concat (Blocks badFn)) = [1, 2, 4] \<and>
   map fst (checkFunc plainPass badHeap (Some badFn) exRegistry []) = [2009, 2210, 2412] \<and>
   kind (badHeap 4) = Extract (Some 3) \<and>
   reportPos badHeap 4 = Pos (badHeap 3) \<and>
   Pos (badHeap 3) \<noteq> Pos (badHeap 4)"
  using one_diagnostic_at_producer [of plainPass badFn badHeap exRegistry "[]" 4 3]
  by (simp add: badHeap_def badFn_def plainPass_def example_defs)

section \<open>Exemptions\<close>

text \<open>
  C3. A candidate registered as ReadOnlyTransaction that is produced by a call of
  Single, whether Single is the interface method invoked or the name of the function
  called, never yields a diagnostic, whatever its use sites are.
\<close>

theorem single_never_reported:
  assumes "getSpannerType (Type (h val)) st = ''ReadOnlyTransaction''"
    and "kind (h val) = Call c"
    and "Method c = Some ''Single'' \<or> Value c = Some ''Single''"
  shows "checkInstr pass h st fn val ds = ds"
proof -
  from assms(2,3) have "isFromSingle h val"
    by (auto simp: isFromSingle_def split: option.splits)
  with assms(1) have "exempt h st fn val"
    by (simp add: exempt_def)
  then show ?thesis
    by (simp add: checkInstr_eq reportable_def)
qed

theorem single_never_reported_witness:
  "getSpannerType (Type (singleHeap 1)) exRegistry = ''ReadOnlyTransaction'' \<and>
   kind (singleHeap 1) = Call \<lparr>Method = None, Value = Some ''Single''\<rparr> \<and>
   \<not> hasDeferredClose singleHeap 1 \<and>
   checkInstr plainPass singleHeap exRegistry singleFn 1 [] = []"
  using single_never_reported [of singleHeap 1 exRegistry
      "\<lparr>Method = None, Value = Some ''Single''\<rparr>" plainPass singleFn "[]"]
  by (simp add: singleHeap_def example_defs)

text \<open>
  C4. A candidate registered as RowIterator that is among the results of a return
  instruction using it never yields a diagnostic in that function, whether or not its
  cleanup is deferred.
\<close>

theorem returned_iterator_never_reported:
  assumes "getSpannerType (Type (h val)) st = ''RowIterator''"
    and "Referrers (h val) = Some refs"
    and "ret \<in> set refs"
    and "kind (h ret) = Return results"
    and "val \<in> set results"
  shows "checkInstr pass h st fn val ds = ds"
proof -
  from assms(2-5) have "isReturnedFromFunction h fn val"
    by (auto simp: isReturnedFromFunction_def returnedAmong_iff)
  with assms(1) have "exempt h st fn val"
    by (simp add: exempt_def)
  then show ?thesis
    by (simp add: checkInstr_eq reportable_def)
qed

theorem returned_iterator_never_reported_witness:
  "getSpannerType (Type (returnHeap 1)) exRegistry = ''RowIterator'' \<and>
   Referrers (returnHeap 1) = Some [2] \<and>
   kind (returnHeap 2) = Return [1] \<and>
   \<not> hasDeferredClose returnHeap 1 \<and>
   checkInstr plainPass returnHeap exRegistry returnFn 1 [] = []"
  using returned_iterator_never_reported [of returnHeap 1 exRegistry "[2]" 2 "[1]"
      plainPass returnFn "[]"]
  by (simp add: returnHeap_def example_defs)

section \<open>The registry\<close>

text \<open>
  C5. If the registry is empty after the registration of the three resource types,
  the analyzer does nothing for the unit: whatever functions the unit has, it returns
  a nil result and a nil error and has emitted no diagnostic.
\<close>

theorem empty_registry_is_noop:
  assumes "registerAll (AllPackages pssa) [] = []"
  shows "deferOnlyAnalyzer pass h pssa = \<lparr>diagnostics = [], result = None, err = None\<rparr>"
  using assms by (simp add: deferOnlyAnalyzer_def)

theorem empty_registry_is_noop_witness:
  "registerAll (AllPackages fmtOnly) [] = [] \<and>
   checkFunc plainPass badHeap (Some badFn) exRegistry [] \<noteq> [] \<and>
   deferOnlyAnalyzer plainPass badHeap fmtOnly = \<lparr>diagnostics = [], result = None, err = None\<rparr>"
  using empty_registry_is_noop [of fmtOnly plainPass badHeap]
  by (simp add: fmtOnly_def fmtPkg_def badHeap_def badFn_def plainPass_def example_defs)

section \<open>Suppression\<close>

text \<open>
  C7. A directive on the line before the reported position is to suppress the
  diagnostic. Here the directive is the second line of a two-line comment, on the line
  just before the call: the scan compares the line of the comment group, which is the
  line of its first comment, finds it two lines above, and reports the call. The same
  directive alone on the line of the call suppresses it.
\<close>

theorem directive_inside_group_ignored:
  "file_Line leadPass 0 1902 = file_Line leadPass 0 (reportPos badHeap 1) - 1 \<and>
   nolintText ''//nolint:spannerclosecheck'' \<and>
   \<not> hasNolintDirective leadPass (reportPos badHeap 1) \<and>
   checkInstr leadPass badHeap exRegistry badFn 1 [] =
     [(2009, ''ReadOnlyTransaction.Close() must be deferred'')] \<and>
   hasNolintDirective trailPass (reportPos badHeap 1) \<and>
   checkInstr trailPass badHeap exRegistry badFn 1 [] = []"
  by (simp add: leadPass_def trailPass_def badHeap_def example_defs)






section \<open>Missing file metadata\<close>

text \<open>
  C9, as the specification words it: a candidate whose position belongs to no file is
  to yield no diagnostic. The implicit load of an iterator has no position; nothing
  defers it, and the scan reports it.
\<close>

theorem no_file_no_diagnostic_counterexample:
  "Fset_File plainPass (fn_Pos loadFn) = None \<and>
   Fset_File plainPass (reportPos loadHeap 1) = None \<and>
   checkFunc plainPass loadHeap (Some loadFn) exRegistry [] =
     [(0, ''RowIterator.Close() must be deferred'')]"
  by (simp add: loadHeap_def loadFn_def plainPass_def example_defs)

text \<open>
  C9, amended. When the file lookup for a position yields nothing, the generated-file
  test, the file-level test and the positional suppression test all answer no, without
  failing. So a function at such a position is scanned like any other, and a candidate
  reported at such a position that is neither exempt nor covered still yields its
  diagnostic: only the suppression is skipped.
\<close>

theorem missing_file_means_not_suppressed:
  assumes "Fset_File pass p = None"
  shows "\<not> isGeneratedFile pass p \<and> \<not> hasFileLevelNolint pass p \<and> \<not> hasNolintDirective pass p \<and>
         (fn_Pos fn = p \<longrightarrow>
            checkFunc pass h (Some fn) st ds = checkBlocks pass h st fn (Blocks fn) ds) \<and>
         (reportPos h val = p \<and> candidate h st val \<and> \<not> exempt h st fn val \<and>
          \<not> hasDeferredClose h val \<longrightarrow>
            (\<exists>msg. checkInstr pass h st fn val ds = ds @ [(p, msg)]))"
proof -
  from assms have checks:
    "\<not> isGeneratedFile pass p" "\<not> hasFileLevelNolint pass p" "\<not> hasNolintDirective pass p"
    by (simp_all add: isGeneratedFile_def hasFileLevelNolint_def hasNolintDirective_def)
  from checks(1) have "fn_Pos fn = p \<longrightarrow>
      checkFunc pass h (Some fn) st ds = checkBlocks pass h st fn (Blocks fn) ds"
    by (simp add: checkFunc_def)
  moreover from checks(3) have "reportPos h val = p \<and> candidate h st val \<and>
      \<not> exempt h st fn val \<and> \<not> hasDeferredClose h val \<longrightarrow>
      (\<exists>msg. checkInstr pass h st fn val ds = ds @ [(p, msg)])"
    by (auto simp: checkInstr_eq reportable_def)
  ultimately show ?thesis
    using checks by blast
qed

theorem missing_file_means_not_suppressed_witness:
  "Fset_File plainPass 0 = None \<and>
   \<not> isGeneratedFile plainPass 0 \<and>
   \<not> hasNolintDirective plainPass 0 \<and>
   fn_Pos loadFn = 0 \<and>
   reportPos loadHeap 1 = 0 \<and>
   candidate loadHeap exRegistry 1 \<and>
   \<not> exempt loadHeap exRegistry loadFn 1 \<and>
   \<not> hasDeferredClose loadHeap 1 \<and>
   checkInstr plainPass loadHeap exRegistry loadFn 1 [] =
     [(0, ''RowIterator.Close() must be deferred'')]"
  using missing_file_means_not_suppressed [of plainPass 0 loadFn loadHeap exRegistry "[]" 1]
  by (simp add: loadHeap_def loadFn_def plainPass_def example_defs)

end
